theory Spec2Isabelle
  imports Complex_Main "HOL-Library.Word" "HOL-Library.Sublist"
begin

section \<open>JavaScript strings\<close>

text \<open>
  A JavaScript string is a sequence of UTF-16 code units. The regular expression
  \<^verbatim>\<open>/\D/g\<close> (no \<^verbatim>\<open>u\<close> flag), \<^verbatim>\<open>trim\<close>, \<^verbatim>\<open>length\<close> and
  \<^verbatim>\<open>Set\<close> membership all work on code units, so the model keeps them:
  a string is a list of 16-bit words. \<open>js\<close> embeds an ASCII literal.
\<close>

type_synonym code_unit = "16 word"
type_synonym jsstring = "code_unit list"

definition js :: "string \<Rightarrow> jsstring" where
  "js s = map of_char s"

text \<open>
  \<^verbatim>\<open>String.prototype.trim\<close> removes leading and trailing WhiteSpace and
  LineTerminator code points (ECMA-262, 22.1.3.32 with 12.2 and 12.3): TAB, LF, VT, FF,
  CR, SPACE, NBSP, U+1680, U+2000 to U+200A, U+2028, U+2029, U+202F, U+205F, U+3000 and
  U+FEFF.
\<close>

definition is_white :: "code_unit \<Rightarrow> bool" where
  "is_white c \<longleftrightarrow>
     (0x0009 \<le> c \<and> c \<le> 0x000D) \<or> c = 0x0020 \<or> c = 0x00A0 \<or> c = 0x1680 \<or>
     (0x2000 \<le> c \<and> c \<le> 0x200A) \<or> c = 0x2028 \<or> c = 0x2029 \<or> c = 0x202F \<or>
     c = 0x205F \<or> c = 0x3000 \<or> c = 0xFEFF"

definition trim :: "jsstring \<Rightarrow> jsstring" where
  "trim s = rev (dropWhile is_white (rev (dropWhile is_white s)))"

text \<open>\<^verbatim>\<open>Array.prototype.join\<close> on an array of strings.\<close>

fun join :: "jsstring \<Rightarrow> jsstring list \<Rightarrow> jsstring" where
  "join sep [] = []"
| "join sep [x] = x"
| "join sep (x # y # ys) = x @ sep @ join sep (y # ys)"


section \<open>PhoneNormalizer\<close>

text \<open>
  \<^verbatim>\<open>\D\<close> matches every code unit outside \<^verbatim>\<open>0\<close>..\<^verbatim>\<open>9\<close>; replacing all
  matches by the empty string keeps exactly the digits, in order.
\<close>

definition is_digit :: "code_unit \<Rightarrow> bool" where
  "is_digit c \<longleftrightarrow> 0x30 \<le> c \<and> c \<le> 0x39"

text \<open>
  \<^verbatim>\<open>function normalizePhone(input) { return (input || "").replace(/\D/g, ""); }\<close>

  The argument is a string or absent (\<^verbatim>\<open>null\<close>, \<^verbatim>\<open>undefined\<close>): \<open>None\<close> is
  the absent argument, which \<^verbatim>\<open>input || ""\<close> turns into the empty string (as it
  does the empty string itself).
\<close>

definition normalizePhone :: "jsstring option \<Rightarrow> jsstring" where
  "normalizePhone input =
     filter is_digit (case input of None \<Rightarrow> [] | Some s \<Rightarrow> if s = [] then [] else s)"

text \<open>
  \<^verbatim>\<open>
  function isBlockedNumber(input) {
    const n = normalizePhone(input);
    return ["911", "112", "999", "988"].includes(n);
  }
  \<close>
\<close>

definition isBlockedNumber :: "jsstring option \<Rightarrow> bool" where
  "isBlockedNumber input =
     (let n = normalizePhone input
      in n \<in> set [js ''911'', js ''112'', js ''999'', js ''988''])"

text \<open>
  The specification's words for "a formatting of a number with punctuation or spaces":
  the text is the number with code units that are not digits inserted anywhere.
  This predicate follows the specification, not the source.
\<close>

fun spec_formatting_of :: "jsstring \<Rightarrow> jsstring \<Rightarrow> bool" where
  "spec_formatting_of num [] = (num = [])"
| "spec_formatting_of num (c # cs) =
     (if is_digit c
      then (case num of [] \<Rightarrow> False | d # ds \<Rightarrow> c = d \<and> spec_formatting_of ds cs)
      else spec_formatting_of num cs)"


section \<open>Application state and effects\<close>

text \<open>A contact as \<^verbatim>\<open>addContact\<close> builds it: \<^verbatim>\<open>{ id, name, phone }\<close>.\<close>

record contact =
  id_contact :: jsstring
  name :: jsstring
  phone :: jsstring

text \<open>The \<^verbatim>\<open>useState\<close> cells of \<^verbatim>\<open>App\<close>.\<close>

record app =
  status :: jsstring
  userName :: jsstring
  contacts :: "contact list"
  contactName :: jsstring
  contactPhone :: jsstring
  lastMessage :: jsstring
  lastLink :: jsstring

text \<open>
  What a handler does to the world outside the component's state, in the order it
  happens: \<^verbatim>\<open>localStorage.setItem(key, JSON.stringify(contacts))\<close> (the serialised
  array is kept as the list it serialises), the request to
  \<^verbatim>\<open>navigator.geolocation.getCurrentPosition\<close> with its options, and the assignment
  to \<^verbatim>\<open>window.location.href\<close>.
\<close>

record position_options =
  enableHighAccuracy :: bool
  timeout :: nat
  maximumAge :: nat

datatype effect =
    SetItem jsstring "contact list"
  | GetCurrentPosition position_options
  | Navigate jsstring

definition STORAGE_CONTACTS :: jsstring where
  "STORAGE_CONTACTS = js ''sos_contacts''"

text \<open>
  The state after \<^verbatim>\<open>loadString("sos_user_name", "")\<close> and
  \<^verbatim>\<open>loadJson(STORAGE_CONTACTS, [])\<close> found nothing stored: the empty store.
\<close>

definition initial :: app where
  "initial = \<lparr> status = [], userName = [], contacts = [], contactName = [],
               contactPhone = [], lastMessage = [], lastLink = [] \<rparr>"


section \<open>ContactStore\<close>

text \<open>
  \<^verbatim>\<open>const recipientsCsv = useMemo(() => contacts.map((c) => c.phone).join(","), [contacts]);\<close>
\<close>

definition recipientsCsv :: "app \<Rightarrow> jsstring" where
  "recipientsCsv st = join (js '','') (map phone (contacts st))"

text \<open>
  The deduplication loop of \<^verbatim>\<open>addContact\<close>, with its two mutable locals as
  arguments:
  \<^verbatim>\<open>
  const seen = new Set();
  const dedup = [];
  for (const c of next) {
    if (!seen.has(c.phone)) { seen.add(c.phone); dedup.push(c); }
  }
  \<close>
\<close>

fun dedup_loop :: "contact list \<Rightarrow> jsstring set \<Rightarrow> contact list \<Rightarrow> contact list" where
  "dedup_loop [] seen dedup = dedup"
| "dedup_loop (c # cs) seen dedup =
     (if phone c \<notin> seen
      then dedup_loop cs (insert (phone c) seen) (dedup @ [c])
      else dedup_loop cs seen dedup)"

text \<open>
  \<^verbatim>\<open>addContact\<close>. The first argument is the value \<^verbatim>\<open>crypto.randomUUID()\<close>
  returns when it is called. The result is the next state and the effects.
  The effect \<^verbatim>\<open>useEffect(() => saveJson(STORAGE_CONTACTS, contacts), [contacts])\<close>
  runs after every render in which \<^verbatim>\<open>contacts\<close> is a new array, that is after
  every \<^verbatim>\<open>setContacts\<close> of this component (each passes a freshly built array), and
  not otherwise.
\<close>

definition addContact :: "jsstring \<Rightarrow> app \<Rightarrow> app \<times> effect list" where
  "addContact uuid st =
     (let phone0 = trim (contactPhone st);
          digits = normalizePhone (Some phone0)
      in if phone0 = [] then
           (st\<lparr>status := js ''Enter a phone number.''\<rparr>, [])
         else if isBlockedNumber (Some phone0) then
           (st\<lparr>status := js ''Emergency numbers like 911 cannot be added.''\<rparr>, [])
         else if length digits < 7 then
           (st\<lparr>status := js ''That number looks too short.''\<rparr>, [])
         else
           (let next = contacts st @
                  [\<lparr> id_contact = uuid, name = trim (contactName st), phone = phone0 \<rparr>];
                dedup = dedup_loop next {} []
            in (st\<lparr>contacts := dedup, contactName := [], contactPhone := [],
                    status := js ''Contact saved.''\<rparr>,
                [SetItem STORAGE_CONTACTS dedup])))"

text \<open>
  \<^verbatim>\<open>
  function removeContact(id) {
    setContacts(contacts.filter((c) => c.id !== id));
    setStatus("Contact removed.");
  }
  \<close>
\<close>

definition removeContact :: "jsstring \<Rightarrow> app \<Rightarrow> app \<times> effect list" where
  "removeContact i st =
     (let kept = filter (\<lambda>c. id_contact c \<noteq> i) (contacts st)
      in (st\<lparr>contacts := kept, status := js ''Contact removed.''\<rparr>,
          [SetItem STORAGE_CONTACTS kept]))"

text \<open>
  The specification's \<open>ContactStore.add(name, phone)\<close>: the two input fields are
  filled (\<^verbatim>\<open>setContactName\<close>, \<^verbatim>\<open>setContactPhone\<close> from the \<^verbatim>\<open>onChange\<close>
  handlers) and the button calls \<^verbatim>\<open>addContact\<close>.
\<close>

definition add :: "jsstring \<Rightarrow> jsstring \<Rightarrow> jsstring \<Rightarrow> app \<Rightarrow> app \<times> effect list" where
  "add nm ph uuid st = addContact uuid (st\<lparr>contactName := nm, contactPhone := ph\<rparr>)"

text \<open>Sequences of store operations, for the states a store can reach.\<close>

datatype store_op = Add jsstring jsstring jsstring | Remove jsstring

fun apply_op :: "app \<Rightarrow> store_op \<Rightarrow> app" where
  "apply_op st (Add nm ph uuid) = fst (add nm ph uuid st)"
| "apply_op st (Remove i) = fst (removeContact i st)"

definition run_ops :: "store_op list \<Rightarrow> app \<Rightarrow> app" where
  "run_ops ops st = foldl apply_op st ops"

text \<open>
  The conditions under which \<^verbatim>\<open>addContact\<close> passes its three checks, and the
  contact it then appends; both are read off \<open>addContact\<close> and only shorten the
  statements below.
\<close>

definition accepted :: "jsstring \<Rightarrow> bool" where
  "accepted ph \<longleftrightarrow>
     trim ph \<noteq> [] \<and> \<not> isBlockedNumber (Some (trim ph)) \<and>
     7 \<le> length (normalizePhone (Some (trim ph)))"

definition new_contact :: "jsstring \<Rightarrow> jsstring \<Rightarrow> jsstring \<Rightarrow> contact" where
  "new_contact nm ph uuid = \<lparr> id_contact = uuid, name = trim nm, phone = trim ph \<rparr>"


section \<open>LocationProbe\<close>

text \<open>
  \<^verbatim>\<open>pos.coords.latitude\<close> and \<^verbatim>\<open>pos.coords.longitude\<close> are finite IEEE doubles
  (the interface declares them \<^verbatim>\<open>double\<close>, which excludes NaN and the infinities).
  Every finite double is a rational number and \<^verbatim>\<open>toFixed\<close> is specified on that
  mathematical value, so a coordinate is a \<open>rat\<close>.
\<close>

record coords =
  latitude :: rat
  longitude :: rat

record position =
  coords :: coords

text \<open>
  The injected sensor is \<^verbatim>\<open>navigator.geolocation.getCurrentPosition\<close>: given the
  options it invokes the success callback with a position, or the error callback, or
  neither of them ever (\<open>None\<close>). The error object is never read
  (\<^verbatim>\<open>catch { ... }\<close> binds nothing), so it carries no data here.
\<close>

datatype callback = Success position | Failure

type_synonym geolocation = "position_options \<Rightarrow> callback option"

text \<open>The state of the promise \<^verbatim>\<open>getLocationOnce\<close> returns, once the sensor has acted.\<close>

datatype 'a promise = Resolved 'a | Rejected | Pending

text \<open>
  \<^verbatim>\<open>
  async function getLocationOnce() {
    return new Promise((resolve, reject) => {
      if (!("geolocation" in navigator)) { reject(new Error(...)); return; }
      navigator.geolocation.getCurrentPosition(
        (pos) => resolve(pos), (err) => reject(err),
        { enableHighAccuracy: true, timeout: 10000, maximumAge: 0 });
    });
  }
  \<close>
  The argument is \<^verbatim>\<open>navigator.geolocation\<close>, absent (\<open>None\<close>) when
  \<^verbatim>\<open>"geolocation" in navigator\<close> is false. The promise settles only from the two
  callbacks; the function starts no timer.
\<close>

definition getLocationOnce :: "geolocation option \<Rightarrow> position promise \<times> effect list" where
  "getLocationOnce nav =
     (case nav of
        None \<Rightarrow> (Rejected, [])
      | Some getCurrentPosition \<Rightarrow>
          (let opts = \<lparr> enableHighAccuracy = True, timeout = 10000, maximumAge = 0 \<rparr>
           in (case getCurrentPosition opts of
                 Some (Success pos) \<Rightarrow> Resolved pos
               | Some Failure \<Rightarrow> Rejected
               | None \<Rightarrow> Pending,
               [GetCurrentPosition opts])))"


section \<open>Number.prototype.toFixed\<close>

text \<open>The decimal representation of a natural number, with no leading zeroes.\<close>

definition digit_char :: "nat \<Rightarrow> code_unit" where
  "digit_char d = of_nat (48 + d)"

fun decimal :: "nat \<Rightarrow> jsstring" where
  "decimal n = (if n < 10 then [digit_char n] else decimal (n div 10) @ [digit_char (n mod 10)])"

declare decimal.simps [simp del]

text \<open>
  ECMA-262, \<^verbatim>\<open>Number.prototype.toFixed(fractionDigits)\<close>, steps 11.b and 11.c, for the
  integer \<open>n\<close> of step 11.a: \<open>m\<close> is "0" or the digits of \<open>n\<close>; when \<open>f \<noteq> 0\<close>, \<open>m\<close> is
  padded on the left with zeroes to \<open>f + 1\<close> code units and the point is put before its
  last \<open>f\<close> code units.
\<close>

definition fixed_digits :: "nat \<Rightarrow> nat \<Rightarrow> jsstring" where
  "fixed_digits f n =
     (let m = (if n = 0 then js ''0'' else decimal n)
      in if f \<noteq> 0 then
           (let k = length m;
                z = (if k \<le> f then replicate (f + 1 - k) 0x30 else []);
                m = z @ m;
                k = (if k \<le> f then f + 1 else k);
                a = take (k - f) m;
                b = drop (k - f) m
            in a @ js ''.'' @ b)
         else m)"

text \<open>
  Steps 8 to 12 for a finite \<open>x\<close>: the sign is split off; at \<open>10\<^sup>2\<^sup>1\<close> and beyond the
  result is the runtime's \<^verbatim>\<open>Number::toString\<close>, which depends on the double's
  shortest round-trip digits and is taken as the parameter \<open>numberToString\<close>;
  below, \<open>n\<close> is the integer nearest to \<open>x * 10\<^sup>f\<close>, the larger one of two.
\<close>

definition toFixed :: "(rat \<Rightarrow> jsstring) \<Rightarrow> nat \<Rightarrow> rat \<Rightarrow> jsstring" where
  "toFixed numberToString f x0 =
     (let s = (if x0 < 0 then js ''-'' else []);
          x = (if x0 < 0 then - x0 else x0)
      in if 10 ^ 21 \<le> x then s @ numberToString x
         else s @ fixed_digits f (nat \<lfloor>x * 10 ^ f + 1 / 2\<rfloor>))"


section \<open>encodeURIComponent\<close>

text \<open>
  ECMA-262, \<^verbatim>\<open>Encode\<close> with the unreserved set of \<^verbatim>\<open>encodeURIComponent\<close>: letters,
  digits and \<^verbatim>\<open>- _ . ! ~ * ' ( )\<close> are copied; every other code point is written as
  the percent-escaped octets of its UTF-8 encoding; an unpaired surrogate throws
  \<^verbatim>\<open>URIError\<close> (\<open>None\<close>).
\<close>

definition unreserved :: "code_unit \<Rightarrow> bool" where
  "unreserved c \<longleftrightarrow>
     (0x41 \<le> c \<and> c \<le> 0x5A) \<or> (0x61 \<le> c \<and> c \<le> 0x7A) \<or> (0x30 \<le> c \<and> c \<le> 0x39) \<or>
     c \<in> set (js ''-_.!~*'') \<or> c = 0x27 \<or> c \<in> set (js ''()'')"

definition utf8 :: "nat \<Rightarrow> nat list" where
  "utf8 cp =
     (if cp < 0x80 then [cp]
      else if cp < 0x800 then [0xC0 + cp div 0x40, 0x80 + cp mod 0x40]
      else if cp < 0x10000 then
        [0xE0 + cp div 0x1000, 0x80 + cp div 0x40 mod 0x40, 0x80 + cp mod 0x40]
      else
        [0xF0 + cp div 0x40000, 0x80 + cp div 0x1000 mod 0x40,
         0x80 + cp div 0x40 mod 0x40, 0x80 + cp mod 0x40])"

definition hex_char :: "nat \<Rightarrow> code_unit" where
  "hex_char d = (if d < 10 then of_nat (0x30 + d) else of_nat (0x41 + (d - 10)))"

definition percent :: "nat list \<Rightarrow> jsstring" where
  "percent octets = concat (map (\<lambda>b. [0x25, hex_char (b div 16), hex_char (b mod 16)]) octets)"

fun encodeURIComponent :: "jsstring \<Rightarrow> jsstring option" where
  "encodeURIComponent [] = Some []"
| "encodeURIComponent (c # cs) =
     (if unreserved c then map_option ((#) c) (encodeURIComponent cs)
      else if c < 0xD800 \<or> 0xDFFF < c then
        map_option ((@) (percent (utf8 (unat c)))) (encodeURIComponent cs)
      else if c \<le> 0xDBFF then
        (case cs of
           [] \<Rightarrow> None
         | d # ds \<Rightarrow>
             if 0xDC00 \<le> d \<and> d \<le> 0xDFFF then
               map_option
                 ((@) (percent (utf8 (0x10000 + (unat c - 0xD800) * 0x400 + (unat d - 0xDC00)))))
                 (encodeURIComponent ds)
             else None)
      else None)"


section \<open>MessageComposer and SosCoordinator\<close>

text \<open>
  \<^verbatim>\<open>mapsLink(lat, lon)\<close> returns the template literal
  \<^verbatim>\<open>https://maps.google.com/?q=${lat},${lon}\<close>.
\<close>

definition mapsLink :: "jsstring \<Rightarrow> jsstring \<Rightarrow> jsstring" where
  "mapsLink lat lon = js ''https://maps.google.com/?q='' @ lat @ js '','' @ lon"

text \<open>
  The value of \<^verbatim>\<open>link\<close> after the \<^verbatim>\<open>try\<close>/\<^verbatim>\<open>catch\<close> of \<^verbatim>\<open>sendSOS\<close>, from
  what \<^verbatim>\<open>await getLocationOnce()\<close> gave: a position (\<open>Some\<close>) or an exception
  (\<open>None\<close>). These are the specification's \<open>Known\<close> and \<open>Unknown\<close> location fixes.
  \<^verbatim>\<open>
  try {
    const pos = await getLocationOnce();
    const lat = pos.coords.latitude.toFixed(6);
    const lon = pos.coords.longitude.toFixed(6);
    link = mapsLink(lat, lon);
    setLastLink(link);
  } catch { link = ""; setLastLink(""); }
  \<close>
\<close>

definition link_of :: "(rat \<Rightarrow> jsstring) \<Rightarrow> position option \<Rightarrow> jsstring" where
  "link_of numberToString settled =
     (case settled of
        Some pos \<Rightarrow>
          (let lat = toFixed numberToString 6 (latitude (coords pos));
               lon = toFixed numberToString 6 (longitude (coords pos))
           in mapsLink lat lon)
      | None \<Rightarrow> [])"

text \<open>
  \<^verbatim>\<open>const nameLine = userName ? "My name is ${userName}." : "This is an SOS message.";\<close>

  (the first string is a template literal). A string is truthy when it is not empty.
\<close>

definition nameLine :: "jsstring \<Rightarrow> jsstring" where
  "nameLine user =
     (if user \<noteq> [] then js ''My name is '' @ user @ js ''.''
      else js ''This is an SOS message.'')"

text \<open>
  The two fixed lines of the template; the apostrophe is U+2019.
\<close>

definition detained_line :: jsstring where
  "detained_line = js ''I'' @ [0x2019] @
     js ''m being questioned or detained and may not be able to respond right now.''"

definition check_line :: jsstring where
  "check_line = js ''Please check on me to make sure I'' @ [0x2019] @ js ''m okay.''"

text \<open>
  The template literals of \<^verbatim>\<open>message\<close>, written here as quoted strings:
  \<^verbatim>\<open>
  const message =
    "${nameLine}\n" +
    "I'm being questioned or detained and may not be able to respond right now.\n" +
    "Please check on me to make sure I'm okay.\n" +
    (link ? "My last known location is below:\n${link}\n"
          : "My location is unavailable right now.\n") +
    "Time: ${time}";
  \<close>
\<close>

definition message :: "jsstring \<Rightarrow> jsstring \<Rightarrow> jsstring \<Rightarrow> jsstring" where
  "message user link time =
     nameLine user @ [0x0A] @
     detained_line @ [0x0A] @
     check_line @ [0x0A] @
     (if link \<noteq> [] then js ''My last known location is below:'' @ [0x0A] @ link @ [0x0A]
      else js ''My location is unavailable right now.'' @ [0x0A]) @
     js ''Time: '' @ time"

text \<open>
  What \<^verbatim>\<open>sendSOS\<close> reads from outside the component: the sensor, the string
  \<^verbatim>\<open>new Date().toLocaleString()\<close> returns when it is called, and the runtime's
  \<^verbatim>\<open>Number::toString\<close> for \<open>toFixed\<close>.
\<close>

record env =
  geolocation :: "geolocation option"
  toLocaleString :: jsstring
  numberToString :: "rat \<Rightarrow> jsstring"

text \<open>
  One call of the asynchronous \<^verbatim>\<open>sendSOS\<close>: the state and the effects when the
  call has gone as far as it ever goes, and how it ended: it returned, it is suspended
  at its \<^verbatim>\<open>await\<close> for ever, or it threw (its promise rejected).
  The handler reads \<^verbatim>\<open>contacts\<close>, \<^verbatim>\<open>userName\<close> and \<^verbatim>\<open>recipientsCsv\<close> of
  the render it was created in; no other handler runs in between.
\<close>

datatype outcome = Returned | Suspended | Threw

record run =
  final :: app
  effects :: "effect list"
  outcome :: outcome

text \<open>
  \<^verbatim>\<open>sendSOS\<close> from the point where \<^verbatim>\<open>await getLocationOnce()\<close> has settled:
  \<^verbatim>\<open>
  (try/catch as above)
  const nameLine = ...; const message = ...;
  setLastMessage(message);
  const smsUrl = "sms:${encodeURIComponent(recipientsCsv)}" +
                 "?&body=${encodeURIComponent(message)}";
  setStatus("Opening SMS app (tap Send).");
  window.location.href = smsUrl;
  \<close>
\<close>

definition sendSOS_after_await ::
  "env \<Rightarrow> app \<Rightarrow> jsstring \<Rightarrow> effect list \<Rightarrow> position option \<Rightarrow> run" where
  "sendSOS_after_await e st time eff settled =
     (let link = link_of (numberToString e) settled;
          st = st\<lparr>lastLink := link\<rparr>;
          msg = message (userName st) link time;
          st = st\<lparr>lastMessage := msg\<rparr>
      in case (encodeURIComponent (recipientsCsv st), encodeURIComponent msg) of
           (Some recipients, Some body) \<Rightarrow>
             \<lparr> final = st\<lparr>status := js ''Opening SMS app (tap Send).''\<rparr>,
               effects = eff @ [Navigate (js ''sms:'' @ recipients @ js ''?&body='' @ body)],
               outcome = Returned \<rparr>
         | _ \<Rightarrow> \<lparr> final = st, effects = eff, outcome = Threw \<rparr>)"

text \<open>
  \<^verbatim>\<open>
  async function sendSOS() {
    if (!contacts.length) { setStatus("Add at least one contact first."); return; }
    setStatus("Getting location...");
    const time = new Date().toLocaleString();
    let link = "";
    try { const pos = await getLocationOnce(); ... } catch { ... }
    ...
  }
  \<close>
  The status text ends in U+2026.
\<close>

definition sendSOS :: "env \<Rightarrow> app \<Rightarrow> run" where
  "sendSOS e st =
     (if contacts st = [] then
        \<lparr> final = st\<lparr>status := js ''Add at least one contact first.''\<rparr>,
          effects = [], outcome = Returned \<rparr>
      else
        (let st = st\<lparr>status := js ''Getting location'' @ [0x2026]\<rparr>;
             time = toLocaleString e;
             (promise, eff) = getLocationOnce (geolocation e)
         in case promise of
              Pending \<Rightarrow> \<lparr> final = st, effects = eff, outcome = Suspended \<rparr>
            | Resolved pos \<Rightarrow> sendSOS_after_await e st time eff (Some pos)
            | Rejected \<Rightarrow> sendSOS_after_await e st time eff None))"


section \<open>The specification's wording\<close>

text \<open>
  The definitions of this section follow the specification, not the source; the
  theorems compare them with the source's functions.

  A coordinate "formatted to 6 fractional digits": the sign, the integer part in
  decimal, a point, and exactly six digits, of the nearest millionth (a tie goes away
  from zero). \<open>pad j n\<close> is the last \<open>j\<close> decimal digits of \<open>n\<close>, zero-padded.
\<close>

definition pad :: "nat \<Rightarrow> nat \<Rightarrow> jsstring" where
  "pad j n = map (\<lambda>i. digit_char (n div 10 ^ i mod 10)) (rev [0..<j])"

definition spec_fixed6 :: "rat \<Rightarrow> jsstring" where
  "spec_fixed6 x =
     (let n = nat \<lfloor>\<bar>x\<bar> * 10 ^ 6 + 1 / 2\<rfloor>
      in (if x < 0 then js ''-'' else []) @ decimal (n div 10 ^ 6) @ js ''.'' @ pad 6 n)"

text \<open>
  The message text as the specification words it: newline-separated lines, the last
  of them \<^verbatim>\<open>"Time: {formatted time}."\<close>, with a full stop.
\<close>

definition spec_text :: "jsstring \<Rightarrow> jsstring \<Rightarrow> jsstring \<Rightarrow> jsstring" where
  "spec_text user mapLink time =
     join [0x0A]
       ([if user \<noteq> [] then js ''My name is '' @ user @ js ''.''
         else js ''This is an SOS message.'',
         detained_line,
         check_line] @
        (if mapLink \<noteq> [] then [js ''My last known location is below:'', mapLink]
         else [js ''My location is unavailable right now.'']) @
        [js ''Time: '' @ time @ js ''.''])"


section \<open>Concrete inputs\<close>

text \<open>A sensor that never invokes a callback, and one that reports a fixed position.\<close>

definition silent :: "geolocation" where
  "silent opts = None"

definition fix_at :: "rat \<Rightarrow> rat \<Rightarrow> geolocation" where
  "fix_at lat lon opts = Some (Success \<lparr> coords = \<lparr> latitude = lat, longitude = lon \<rparr> \<rparr>)"

definition env_of :: "geolocation option \<Rightarrow> env" where
  "env_of g = \<lparr> geolocation = g, toLocaleString = js ''11/2/2026, 4:10:00 AM'',
                numberToString = (\<lambda>x. []) \<rparr>"

text \<open>A store with one contact, and a stored list that holds a phone string twice.\<close>

definition one_contact :: app where
  "one_contact = initial\<lparr>userName := js ''Alex'', contacts :=
     [\<lparr> id_contact = js ''a'', name = js ''Ann'', phone = js ''555-1234567'' \<rparr>]\<rparr>"

definition stored_with_duplicates :: app where
  "stored_with_duplicates = initial\<lparr>contacts :=
     [\<lparr> id_contact = js ''a'', name = js ''Ann'', phone = js ''555-1234567'' \<rparr>,
      \<lparr> id_contact = js ''b'', name = js ''Bob'', phone = js ''555-1234567'' \<rparr>,
      \<lparr> id_contact = js ''c'', name = js ''Cy'', phone = js ''7654321'' \<rparr>]\<rparr>"


section \<open>Properties of the PhoneNormalizer\<close>

lemma normalizePhone_Some: "normalizePhone (Some s) = filter is_digit s"
  by (simp add: normalizePhone_def)

lemma isBlockedNumber_Some:
  "isBlockedNumber (Some s) \<longleftrightarrow>
     filter is_digit s \<in> {js ''911'', js ''112'', js ''999'', js ''988''}"
  by (simp add: isBlockedNumber_def normalizePhone_Some Let_def)

lemma spec_formatting_of_filter:
  "spec_formatting_of num s \<Longrightarrow> filter is_digit s = filter is_digit num"
proof (induction s arbitrary: num)
  case Nil
  then show ?case by simp
next
  case (Cons c cs)
  show ?case
  proof (cases "is_digit c")
    case True
    with Cons.prems obtain ds where num: "num = c # ds" and rest: "spec_formatting_of ds cs"
      by (auto split: list.splits)
    from Cons.IH [OF rest] show ?thesis
      using True num by simp
  next
    case False
    with Cons.prems have "spec_formatting_of num cs" by simp
    from Cons.IH [OF this] show ?thesis
      using False by simp
  qed
qed

lemma digits_911: "filter is_digit (js ''911'') = js ''911''"
  by (simp add: js_def is_digit_def)

lemma digits_112: "filter is_digit (js ''112'') = js ''112''"
  by (simp add: js_def is_digit_def)

lemma digits_999: "filter is_digit (js ''999'') = js ''999''"
  by (simp add: js_def is_digit_def)

lemma digits_988: "filter is_digit (js ''988'') = js ''988''"
  by (simp add: js_def is_digit_def)

lemma digits_1234567: "filter is_digit (js ''1234567'') = js ''1234567''"
  by (simp add: js_def is_digit_def)

text \<open>
  C7. For every input string \<open>text\<close>, \<open>isBlocked(text)\<close> is true if and only if
  \<open>normalize(text)\<close> is exactly one of "911", "112", "999", "988". In particular every
  formatting of one of those four numbers with punctuation or spaces is blocked, and
  "1234567" is not blocked.
\<close>

theorem C7_isBlocked_iff_reserved:
  "(isBlockedNumber (Some s) \<longleftrightarrow>
      normalizePhone (Some s) \<in> {js ''911'', js ''112'', js ''999'', js ''988''})
   \<and> (num \<in> {js ''911'', js ''112'', js ''999'', js ''988''} \<and> spec_formatting_of num s
        \<longrightarrow> isBlockedNumber (Some s))
   \<and> \<not> isBlockedNumber (Some (js ''1234567''))"
proof (intro conjI impI)
  show "isBlockedNumber (Some s) \<longleftrightarrow>
      normalizePhone (Some s) \<in> {js ''911'', js ''112'', js ''999'', js ''988''}"
    by (simp add: isBlockedNumber_Some normalizePhone_Some)
next
  assume a: "num \<in> {js ''911'', js ''112'', js ''999'', js ''988''} \<and> spec_formatting_of num s"
  then have "filter is_digit s = filter is_digit num"
    by (simp add: spec_formatting_of_filter)
  moreover from a have "filter is_digit num = num"
    using digits_911 digits_112 digits_999 digits_988 by auto
  ultimately show "isBlockedNumber (Some s)"
    using a by (simp add: isBlockedNumber_Some)
next
  show "\<not> isBlockedNumber (Some (js ''1234567''))"
    unfolding isBlockedNumber_Some digits_1234567 by (simp add: js_def)
qed

text \<open>C7 at the formatting "9-1 1" of "911".\<close>

theorem C7_isBlocked_witness:
  "js ''911'' \<in> {js ''911'', js ''112'', js ''999'', js ''988''}
   \<and> spec_formatting_of (js ''911'') (js ''9-1 1'')
   \<and> isBlockedNumber (Some (js ''9-1 1''))
   \<and> normalizePhone (Some (js ''9-1 1'')) = js ''911''"
proof -
  have h: "js ''911'' \<in> {js ''911'', js ''112'', js ''999'', js ''988''}
           \<and> spec_formatting_of (js ''911'') (js ''9-1 1'')"
    by (simp add: js_def is_digit_def)
  have n: "normalizePhone (Some (js ''9-1 1'')) = js ''911''"
    by (simp add: normalizePhone_Some js_def is_digit_def)
  from C7_isBlocked_iff_reserved [of "js ''9-1 1''" "js ''911''"] h n
  show ?thesis by blast
qed


section \<open>Properties of the ContactStore\<close>

subsection \<open>The deduplication loop\<close>

lemma dedup_loop_distinct:
  "distinct (map phone acc) \<Longrightarrow> set (map phone acc) \<subseteq> seen \<Longrightarrow>
   distinct (map phone (dedup_loop cs seen acc))"
proof (induction cs arbitrary: seen acc)
  case Nil
  then show ?case by simp
next
  case (Cons c cs)
  show ?case
  proof (cases "phone c \<in> seen")
    case True
    then show ?thesis using Cons.IH [OF Cons.prems] by simp
  next
    case False
    with Cons.prems have "distinct (map phone (acc @ [c]))"
      and "set (map phone (acc @ [c])) \<subseteq> insert (phone c) seen"
      by auto
    from Cons.IH [OF this] show ?thesis using False by simp
  qed
qed

lemma dedup_loop_subseq: "subseq (dedup_loop cs seen acc) (acc @ cs)"
proof (induction cs arbitrary: seen acc)
  case Nil
  then show ?case by simp
next
  case (Cons c cs)
  show ?case
  proof (cases "phone c \<in> seen")
    case True
    have "subseq (dedup_loop cs seen acc) (acc @ cs)" by (rule Cons.IH)
    also have "subseq (acc @ cs) (acc @ c # cs)"
      by (auto simp: subseq_append' intro: list_emb_Cons)
    finally show ?thesis using True by simp
  next
    case False
    have "subseq (dedup_loop cs (insert (phone c) seen) (acc @ [c])) ((acc @ [c]) @ cs)"
      by (rule Cons.IH)
    then show ?thesis using False by simp
  qed
qed

lemma find_append_eq:
  "find P (xs @ ys) = (case find P xs of None \<Rightarrow> find P ys | Some x \<Rightarrow> Some x)"
  by (induction xs) auto

lemma find_phone_None: "find (\<lambda>c. phone c = p) xs = None \<longleftrightarrow> p \<notin> set (map phone xs)"
  by (auto simp: find_None_iff)

lemma dedup_loop_find:
  "seen = set (map phone acc) \<Longrightarrow>
   find (\<lambda>c. phone c = p) (dedup_loop cs seen acc) = find (\<lambda>c. phone c = p) (acc @ cs)"
proof (induction cs arbitrary: seen acc)
  case Nil
  then show ?case by simp
next
  case (Cons c cs)
  show ?case
  proof (cases "phone c \<in> seen")
    case True
    then have "find (\<lambda>c. phone c = p) (dedup_loop (c # cs) seen acc)
               = find (\<lambda>c. phone c = p) (acc @ cs)"
      using Cons.IH [OF Cons.prems] by simp
    also have "\<dots> = find (\<lambda>c. phone c = p) (acc @ c # cs)"
    proof (cases "phone c = p")
      case same: True
      with True Cons.prems have "find (\<lambda>c. phone c = p) acc \<noteq> None"
        by (simp add: find_phone_None)
      then show ?thesis by (auto simp: find_append_eq)
    next
      case False
      then show ?thesis by (simp add: find_append_eq split: option.splits)
    qed
    finally show ?thesis .
  next
    case False
    have "insert (phone c) seen = set (map phone (acc @ [c]))"
      using Cons.prems by simp
    from Cons.IH [OF this] show ?thesis using False by simp
  qed
qed

lemma dedup_loop_phones:
  "phone ` set (dedup_loop cs seen acc) = phone ` set acc \<union> (phone ` set cs - seen)"
  by (induction cs arbitrary: seen acc) auto

lemma dedup_loop_fresh:
  "distinct (map phone xs) \<Longrightarrow> set (map phone xs) \<inter> seen = {} \<Longrightarrow>
   dedup_loop xs seen acc = acc @ xs"
  by (induction xs arbitrary: seen acc) auto

lemma dedup_loop_app:
  "dedup_loop (xs @ ys) seen acc =
     dedup_loop ys (seen \<union> set (map phone xs)) (dedup_loop xs seen acc)"
  by (induction xs arbitrary: seen acc) (auto simp: insert_absorb)

lemma count_phone_one:
  "distinct (map phone xs) \<Longrightarrow> p \<in> set (map phone xs) \<Longrightarrow>
   length (filter (\<lambda>c. phone c = p) xs) = 1"
  by (induction xs) (auto simp: filter_empty_conv image_iff)

subsection \<open>Reachable stores\<close>

lemma add_accepted:
  "accepted ph \<Longrightarrow>
   add nm ph uuid st =
     (st\<lparr>contacts := dedup_loop (contacts st @ [new_contact nm ph uuid]) {} [],
         contactName := [], contactPhone := [], status := js ''Contact saved.''\<rparr>,
      [SetItem STORAGE_CONTACTS
         (dedup_loop (contacts st @ [new_contact nm ph uuid]) {} [])])"
  by (simp add: accepted_def add_def addContact_def new_contact_def Let_def)

lemma contacts_add_accepted:
  "accepted ph \<Longrightarrow>
   contacts (fst (add nm ph uuid st)) =
     dedup_loop (contacts st @ [new_contact nm ph uuid]) {} []"
  by (simp add: add_accepted)

lemma add_rejected:
  "\<not> accepted ph \<Longrightarrow> contacts (fst (add nm ph uuid st)) = contacts st"
  by (auto simp: accepted_def add_def addContact_def Let_def)

lemma distinct_phones_add:
  "distinct (map phone (contacts st)) \<Longrightarrow>
   distinct (map phone (contacts (fst (add nm ph uuid st))))"
proof (cases "accepted ph")
  case True
  then show ?thesis
    by (simp add: contacts_add_accepted dedup_loop_distinct)
next
  case False
  assume "distinct (map phone (contacts st))"
  with False show ?thesis by (simp add: add_rejected)
qed

lemma distinct_phones_remove:
  "distinct (map phone (contacts st)) \<Longrightarrow>
   distinct (map phone (contacts (fst (removeContact i st))))"
  by (simp add: removeContact_def distinct_map_filter Let_def)

lemma distinct_phones_apply_op:
  "distinct (map phone (contacts st)) \<Longrightarrow> distinct (map phone (contacts (apply_op st x)))"
  by (cases x) (simp_all add: distinct_phones_add distinct_phones_remove)

lemma distinct_phones_run_ops:
  "distinct (map phone (contacts st)) \<Longrightarrow> distinct (map phone (contacts (run_ops ops st)))"
  unfolding run_ops_def
  by (induction ops arbitrary: st) (simp_all add: distinct_phones_apply_op)

text \<open>
  C1, as amended. In every store reached from the empty store by add and remove
  operations, the stored \<open>phone\<close> strings are pairwise distinct: the uniqueness the code
  keeps is that of the raw stored string, not of its digits.
\<close>
theorem C1_raw_phone_unique:
  "distinct (map phone (contacts (run_ops ops (st\<lparr>contacts := []\<rparr>))))"
  by (rule distinct_phones_run_ops) simp

lemmas eval_simps = run_ops_def add_def addContact_def removeContact_def trim_def js_def
  is_white_def is_digit_def isBlockedNumber_Some normalizePhone_Some initial_def Let_def

text \<open>
  C1, as stated, fails: after adding "555-1234567" and then "5551234567" to the empty
  store, two contacts have the same canonical digits.
\<close>
theorem C1_normalized_not_unique_counterexample:
  "\<not> distinct (map (\<lambda>c. normalizePhone (Some (phone c)))
       (contacts (run_ops [Add (js ''A'') (js ''555-1234567'') (js ''id1''),
                           Add (js ''B'') (js ''5551234567'') (js ''id2'')] initial)))"
  by (simp add: eval_simps)

subsection \<open>Validation\<close>

text \<open>
  C3. For every name and phone input, add fails with EmptyPhone ("Enter a phone
  number.") when the trimmed phone is empty, otherwise with BlockedNumber ("Emergency
  numbers like 911 cannot be added.") when \<open>isBlocked\<close> holds of it, otherwise with
  TooShort ("That number looks too short.") when it has fewer than 7 digits. In each
  case the result is an ordinary return whose state differs from the state with the two
  fields filled in only in the status text, and no effect happens: the contacts are
  unchanged and nothing is written.
\<close>
theorem C3_add_validation_order:
  "(trim ph = [] \<longrightarrow>
      add nm ph uuid st =
        (st\<lparr>contactName := nm, contactPhone := ph,
            status := js ''Enter a phone number.''\<rparr>, []))
   \<and> (trim ph \<noteq> [] \<and> isBlockedNumber (Some (trim ph)) \<longrightarrow>
      add nm ph uuid st =
        (st\<lparr>contactName := nm, contactPhone := ph,
            status := js ''Emergency numbers like 911 cannot be added.''\<rparr>, []))
   \<and> (trim ph \<noteq> [] \<and> \<not> isBlockedNumber (Some (trim ph))
        \<and> length (normalizePhone (Some (trim ph))) < 7 \<longrightarrow>
      add nm ph uuid st =
        (st\<lparr>contactName := nm, contactPhone := ph,
            status := js ''That number looks too short.''\<rparr>, []))"
  by (simp add: add_def addContact_def Let_def)

text \<open>C3 at a blank phone, at " 9-1-1 " and at "123456".\<close>
theorem C3_add_validation_witness:
  "trim (js ''  '') = []
   \<and> add (js ''Ann'') (js ''  '') (js ''id1'') initial =
        (initial\<lparr>contactName := js ''Ann'', contactPhone := js ''  '',
            status := js ''Enter a phone number.''\<rparr>, [])
   \<and> trim (js '' 9-1-1 '') \<noteq> [] \<and> isBlockedNumber (Some (trim (js '' 9-1-1 '')))
   \<and> add (js ''Ann'') (js '' 9-1-1 '') (js ''id1'') initial =
        (initial\<lparr>contactName := js ''Ann'', contactPhone := js '' 9-1-1 '',
            status := js ''Emergency numbers like 911 cannot be added.''\<rparr>, [])
   \<and> trim (js ''123456'') \<noteq> [] \<and> \<not> isBlockedNumber (Some (trim (js ''123456'')))
   \<and> length (normalizePhone (Some (trim (js ''123456'')))) < 7
   \<and> add (js ''Ann'') (js ''123456'') (js ''id1'') initial =
        (initial\<lparr>contactName := js ''Ann'', contactPhone := js ''123456'',
            status := js ''That number looks too short.''\<rparr>, [])"
proof -
  have h1: "trim (js ''  '') = []"
    by (simp add: trim_def js_def is_white_def)
  have h2: "trim (js '' 9-1-1 '') \<noteq> [] \<and> isBlockedNumber (Some (trim (js '' 9-1-1 '')))"
    by (simp add: trim_def js_def is_white_def isBlockedNumber_Some is_digit_def)
  have h3: "trim (js ''123456'') \<noteq> [] \<and> \<not> isBlockedNumber (Some (trim (js ''123456'')))
     \<and> length (normalizePhone (Some (trim (js ''123456'')))) < 7"
    by (simp add: trim_def js_def is_white_def isBlockedNumber_Some normalizePhone_Some is_digit_def)
  from h1 h2 h3
    C3_add_validation_order [of "js ''  ''" "js ''Ann''" "js ''id1''" initial]
    C3_add_validation_order [of "js '' 9-1-1 ''" "js ''Ann''" "js ''id1''" initial]
    C3_add_validation_order [of "js ''123456''" "js ''Ann''" "js ''id1''" initial]
  show ?thesis by blast
qed

subsection \<open>Deduplication\<close>

text \<open>
  C9. Every successful add deduplicates the whole appended sequence: whatever the
  starting sequence is (also one that already holds a phone string twice), the contacts
  after the add have pairwise distinct \<open>phone\<close> strings, are a subsequence of the
  appended sequence, and hold for every phone string its first occurrence there.
\<close>
theorem C9_add_dedups_whole_sequence:
  assumes "accepted ph"
  shows "distinct (map phone (contacts (fst (add nm ph uuid st))))
    \<and> subseq (contacts (fst (add nm ph uuid st))) (contacts st @ [new_contact nm ph uuid])
    \<and> (\<forall>p. find (\<lambda>c. phone c = p) (contacts (fst (add nm ph uuid st))) =
            find (\<lambda>c. phone c = p) (contacts st @ [new_contact nm ph uuid]))"
proof (intro conjI allI)
  show "distinct (map phone (contacts (fst (add nm ph uuid st))))"
    using assms by (simp add: contacts_add_accepted dedup_loop_distinct)
  show "subseq (contacts (fst (add nm ph uuid st))) (contacts st @ [new_contact nm ph uuid])"
    using assms dedup_loop_subseq [of "contacts st @ [new_contact nm ph uuid]" "{}" "[]"]
    by (simp add: contacts_add_accepted)
  show "find (\<lambda>c. phone c = p) (contacts (fst (add nm ph uuid st))) =
        find (\<lambda>c. phone c = p) (contacts st @ [new_contact nm ph uuid])" for p
    using assms dedup_loop_find [of "{}" "[]" p "contacts st @ [new_contact nm ph uuid]"]
    by (simp add: contacts_add_accepted)
qed

text \<open>C9 on a stored list that holds "555-1234567" twice.\<close>
theorem C9_add_dedups_witness:
  "accepted (js ''7654321 '')
   \<and> contacts (fst (add (js ''Di'') (js ''7654321 '') (js ''d'') stored_with_duplicates)) =
       [\<lparr> id_contact = js ''a'', name = js ''Ann'', phone = js ''555-1234567'' \<rparr>,
        \<lparr> id_contact = js ''c'', name = js ''Cy'', phone = js ''7654321'' \<rparr>]
   \<and> distinct (map phone
        (contacts (fst (add (js ''Di'') (js ''7654321 '') (js ''d'') stored_with_duplicates))))"
proof -
  have h: "accepted (js ''7654321 '')"
    by (simp add: accepted_def trim_def js_def is_white_def isBlockedNumber_Some
        normalizePhone_Some is_digit_def)
  have e: "contacts (fst (add (js ''Di'') (js ''7654321 '') (js ''d'') stored_with_duplicates)) =
       [\<lparr> id_contact = js ''a'', name = js ''Ann'', phone = js ''555-1234567'' \<rparr>,
        \<lparr> id_contact = js ''c'', name = js ''Cy'', phone = js ''7654321'' \<rparr>]"
    by (simp add: stored_with_duplicates_def eval_simps)
  from h e C9_add_dedups_whole_sequence [OF h, of "js ''Di''" "js ''d''" stored_with_duplicates]
  show ?thesis by blast
qed

lemma phones_add_accepted:
  "accepted ph \<Longrightarrow>
   phone ` set (contacts (fst (add nm ph uuid st))) =
     insert (trim ph) (phone ` set (contacts st))"
  by (simp add: contacts_add_accepted dedup_loop_phones new_contact_def)

lemma add_existing_phone:
  assumes "accepted ph" and "distinct (map phone (contacts st))"
    and "trim ph \<in> set (map phone (contacts st))"
  shows "contacts (fst (add nm ph uuid st)) = contacts st"
proof -
  have "dedup_loop (contacts st @ [new_contact nm ph uuid]) {} [] =
        dedup_loop [new_contact nm ph uuid] (set (map phone (contacts st)))
          (dedup_loop (contacts st) {} [])"
    by (simp add: dedup_loop_app)
  also have "dedup_loop (contacts st) {} [] = contacts st"
    using assms(2) by (simp add: dedup_loop_fresh)
  also have "dedup_loop [new_contact nm ph uuid] (set (map phone (contacts st))) (contacts st)
             = contacts st"
    using assms(3) by (simp add: new_contact_def)
  finally show ?thesis using assms(1) by (simp add: contacts_add_accepted)
qed

lemma find_add_accepted:
  "accepted ph \<Longrightarrow>
   find (\<lambda>c. phone c = p) (contacts (fst (add nm ph uuid st))) =
     find (\<lambda>c. phone c = p) (contacts st @ [new_contact nm ph uuid])"
  using dedup_loop_find [of "{}" "[]" p "contacts st @ [new_contact nm ph uuid]"]
  by (simp add: contacts_add_accepted)

lemma distinct_add_accepted:
  "accepted ph \<Longrightarrow> distinct (map phone (contacts (fst (add nm ph uuid st))))"
  by (simp add: contacts_add_accepted dedup_loop_distinct)

lemma run_ops_one: "run_ops [Add nm ph uuid] st = fst (add nm ph uuid st)"
  by (simp add: run_ops_def)

lemma run_ops_two:
  "run_ops [Add n1 ph1 u1, Add n2 ph2 u2] st = fst (add n2 ph2 u2 (fst (add n1 ph1 u1 st)))"
  by (simp add: run_ops_def)

text \<open>
  C2. add deduplicates by the raw stored phone string. For every store and two
  accepted adds in a row: when the trimmed phone strings are identical, the second add
  leaves the contacts as the first left them, exactly one entry has that phone, and it
  is the first occurrence in sequence order; when the trimmed strings differ (whether
  or not their digits agree), each of the two phones has exactly one entry afterwards.
\<close>
theorem C2_dedup_by_raw_phone:
  assumes "accepted ph1" and "accepted ph2"
  shows "(trim ph1 = trim ph2 \<longrightarrow>
            contacts (run_ops [Add n1 ph1 u1, Add n2 ph2 u2] st) =
              contacts (run_ops [Add n1 ph1 u1] st)
          \<and> length (filter (\<lambda>c. phone c = trim ph1)
                (contacts (run_ops [Add n1 ph1 u1, Add n2 ph2 u2] st))) = 1
          \<and> find (\<lambda>c. phone c = trim ph1)
                (contacts (run_ops [Add n1 ph1 u1, Add n2 ph2 u2] st)) =
              find (\<lambda>c. phone c = trim ph1) (contacts st @ [new_contact n1 ph1 u1]))
       \<and> (trim ph1 \<noteq> trim ph2 \<longrightarrow>
            length (filter (\<lambda>c. phone c = trim ph1)
                (contacts (run_ops [Add n1 ph1 u1, Add n2 ph2 u2] st))) = 1
          \<and> length (filter (\<lambda>c. phone c = trim ph2)
                (contacts (run_ops [Add n1 ph1 u1, Add n2 ph2 u2] st))) = 1)"
proof -
  let ?s1 = "fst (add n1 ph1 u1 st)"
  let ?s2 = "fst (add n2 ph2 u2 ?s1)"
  have d1: "distinct (map phone (contacts ?s1))"
    using assms(1) by (rule distinct_add_accepted)
  have d2: "distinct (map phone (contacts ?s2))"
    using assms(2) by (rule distinct_add_accepted)
  have in1: "trim ph1 \<in> set (map phone (contacts ?s1))"
    using assms(1) by (simp add: phones_add_accepted)
  have in2: "trim ph1 \<in> set (map phone (contacts ?s2))"
    and in2': "trim ph2 \<in> set (map phone (contacts ?s2))"
    using assms by (simp_all add: phones_add_accepted)
  have one1: "length (filter (\<lambda>c. phone c = trim ph1) (contacts ?s2)) = 1"
    using d2 in2 by (rule count_phone_one)
  have one2: "length (filter (\<lambda>c. phone c = trim ph2) (contacts ?s2)) = 1"
    using d2 in2' by (rule count_phone_one)
  have same: "contacts ?s2 = contacts ?s1" if "trim ph1 = trim ph2"
    using assms(2) d1 in1 that by (simp add: add_existing_phone)
  have first: "find (\<lambda>c. phone c = trim ph1) (contacts ?s1) =
               find (\<lambda>c. phone c = trim ph1) (contacts st @ [new_contact n1 ph1 u1])"
    using assms(1) by (rule find_add_accepted)
  show ?thesis
    unfolding run_ops_one run_ops_two
  proof (intro conjI impI)
    assume eq: "trim ph1 = trim ph2"
    show "contacts ?s2 = contacts ?s1" by (rule same [OF eq])
    show "length (filter (\<lambda>c. phone c = trim ph1) (contacts ?s2)) = 1" by (rule one1)
    show "find (\<lambda>c. phone c = trim ph1) (contacts ?s2) =
          find (\<lambda>c. phone c = trim ph1) (contacts st @ [new_contact n1 ph1 u1])"
      unfolding same [OF eq] by (rule first)
  next
    show "length (filter (\<lambda>c. phone c = trim ph1) (contacts ?s2)) = 1" by (rule one1)
    show "length (filter (\<lambda>c. phone c = trim ph2) (contacts ?s2)) = 1" by (rule one2)
  qed
qed

text \<open>
  C2 from the empty store: "555-1234567" and "5551234567" have the same digits and
  both stay; "555-1234567" added twice leaves one entry.
\<close>
theorem C2_dedup_by_raw_phone_witness:
  "accepted (js ''555-1234567'') \<and> accepted (js ''5551234567'')
   \<and> trim (js ''555-1234567'') \<noteq> trim (js ''5551234567'')
   \<and> normalizePhone (Some (js ''555-1234567'')) = normalizePhone (Some (js ''5551234567''))
   \<and> contacts (run_ops [Add (js ''Ann'') (js ''555-1234567'') (js ''id1''),
                         Add (js ''Bob'') (js ''5551234567'') (js ''id2'')] initial) =
       [\<lparr> id_contact = js ''id1'', name = js ''Ann'', phone = js ''555-1234567'' \<rparr>,
        \<lparr> id_contact = js ''id2'', name = js ''Bob'', phone = js ''5551234567'' \<rparr>]
   \<and> length (filter (\<lambda>c. phone c = trim (js ''5551234567''))
        (contacts (run_ops [Add (js ''Ann'') (js ''555-1234567'') (js ''id1''),
                            Add (js ''Bob'') (js ''5551234567'') (js ''id2'')] initial))) = 1
   \<and> contacts (run_ops [Add (js ''Ann'') (js ''555-1234567'') (js ''id1''),
                         Add (js ''Bob'') (js ''555-1234567'') (js ''id2'')] initial) =
       [\<lparr> id_contact = js ''id1'', name = js ''Ann'', phone = js ''555-1234567'' \<rparr>]
   \<and> contacts (run_ops [Add (js ''Ann'') (js ''555-1234567'') (js ''id1''),
                         Add (js ''Bob'') (js ''555-1234567'') (js ''id2'')] initial) =
       contacts (run_ops [Add (js ''Ann'') (js ''555-1234567'') (js ''id1'')] initial)"
proof -
  have a1: "accepted (js ''555-1234567'')" and a2: "accepted (js ''5551234567'')"
    by (simp_all add: accepted_def trim_def js_def is_white_def isBlockedNumber_Some
        normalizePhone_Some is_digit_def)
  have ne: "trim (js ''555-1234567'') \<noteq> trim (js ''5551234567'')"
    by (simp add: trim_def js_def is_white_def)
  have n: "normalizePhone (Some (js ''555-1234567'')) = normalizePhone (Some (js ''5551234567''))"
    by (simp add: normalizePhone_Some js_def is_digit_def)
  have e1: "contacts (run_ops [Add (js ''Ann'') (js ''555-1234567'') (js ''id1''),
                         Add (js ''Bob'') (js ''5551234567'') (js ''id2'')] initial) =
       [\<lparr> id_contact = js ''id1'', name = js ''Ann'', phone = js ''555-1234567'' \<rparr>,
        \<lparr> id_contact = js ''id2'', name = js ''Bob'', phone = js ''5551234567'' \<rparr>]"
    by (simp add: eval_simps)
  have e2: "contacts (run_ops [Add (js ''Ann'') (js ''555-1234567'') (js ''id1''),
                         Add (js ''Bob'') (js ''555-1234567'') (js ''id2'')] initial) =
       [\<lparr> id_contact = js ''id1'', name = js ''Ann'', phone = js ''555-1234567'' \<rparr>]"
    by (simp add: eval_simps)
  from a1 a2 ne n e1 e2
    C2_dedup_by_raw_phone [OF a1 a2, of "js ''Ann''" "js ''id1''" "js ''Bob''" "js ''id2''" initial]
    C2_dedup_by_raw_phone [OF a1 a1, of "js ''Ann''" "js ''id1''" "js ''Bob''" "js ''id2''" initial]
  show ?thesis by simp
qed

subsection \<open>The recipient list\<close>

text \<open>
  C10. \<open>recipientsCsv\<close> is not injective on reachable stores: add accepts the phone
  "1234567,7654321", and the store holding that one contact and the store holding the
  two contacts "1234567" and "7654321" have the same \<open>recipientsCsv\<close>.
\<close>
theorem C10_recipientsCsv_not_injective:
  "(\<exists>ops1 ops2.
      contacts (run_ops ops1 initial) \<noteq> contacts (run_ops ops2 initial)
      \<and> recipientsCsv (run_ops ops1 initial) = recipientsCsv (run_ops ops2 initial))
   \<and> accepted (js ''1234567,7654321'')
   \<and> contacts (run_ops [Add [] (js ''1234567,7654321'') (js ''id1'')] initial) =
       [\<lparr> id_contact = js ''id1'', name = [], phone = js ''1234567,7654321'' \<rparr>]
   \<and> contacts (run_ops [Add [] (js ''1234567'') (js ''id1''),
                         Add [] (js ''7654321'') (js ''id2'')] initial) =
       [\<lparr> id_contact = js ''id1'', name = [], phone = js ''1234567'' \<rparr>,
        \<lparr> id_contact = js ''id2'', name = [], phone = js ''7654321'' \<rparr>]
   \<and> recipientsCsv (run_ops [Add [] (js ''1234567,7654321'') (js ''id1'')] initial) =
       js ''1234567,7654321''
   \<and> recipientsCsv (run_ops [Add [] (js ''1234567'') (js ''id1''),
                              Add [] (js ''7654321'') (js ''id2'')] initial) =
       js ''1234567,7654321''"
proof -
  have a: "accepted (js ''1234567,7654321'')"
    by (simp add: accepted_def trim_def js_def is_white_def isBlockedNumber_Some
        normalizePhone_Some is_digit_def)
  have c1: "contacts (run_ops [Add [] (js ''1234567,7654321'') (js ''id1'')] initial) =
       [\<lparr> id_contact = js ''id1'', name = [], phone = js ''1234567,7654321'' \<rparr>]"
    by (simp add: eval_simps)
  have c2: "contacts (run_ops [Add [] (js ''1234567'') (js ''id1''),
                         Add [] (js ''7654321'') (js ''id2'')] initial) =
       [\<lparr> id_contact = js ''id1'', name = [], phone = js ''1234567'' \<rparr>,
        \<lparr> id_contact = js ''id2'', name = [], phone = js ''7654321'' \<rparr>]"
    by (simp add: eval_simps)
  have r1: "recipientsCsv (run_ops [Add [] (js ''1234567,7654321'') (js ''id1'')] initial) =
       js ''1234567,7654321''"
    unfolding recipientsCsv_def c1 by (simp add: js_def)
  have r2: "recipientsCsv (run_ops [Add [] (js ''1234567'') (js ''id1''),
                              Add [] (js ''7654321'') (js ''id2'')] initial) =
       js ''1234567,7654321''"
    unfolding recipientsCsv_def c2 by (simp add: js_def)
  have ne: "contacts (run_ops [Add [] (js ''1234567,7654321'') (js ''id1'')] initial) \<noteq>
            contacts (run_ops [Add [] (js ''1234567'') (js ''id1''),
                         Add [] (js ''7654321'') (js ''id2'')] initial)"
    unfolding c1 c2 by simp
  from r1 r2 have "recipientsCsv (run_ops [Add [] (js ''1234567,7654321'') (js ''id1'')] initial) =
      recipientsCsv (run_ops [Add [] (js ''1234567'') (js ''id1''),
                              Add [] (js ''7654321'') (js ''id2'')] initial)"
    by simp
  with ne have "\<exists>ops1 ops2.
      contacts (run_ops ops1 initial) \<noteq> contacts (run_ops ops2 initial)
      \<and> recipientsCsv (run_ops ops1 initial) = recipientsCsv (run_ops ops2 initial)"
    by blast
  with a c1 c2 r1 r2 show ?thesis by simp
qed


section \<open>Properties of toFixed\<close>

lemma decimal_numeral:
  "decimal (numeral k) =
     (if (numeral k :: nat) < 10 then [digit_char (numeral k)]
      else decimal (numeral k div 10) @ [digit_char (numeral k mod 10)])"
  by (rule decimal.simps)

lemma decimal_0: "decimal 0 = [digit_char 0]" by (simp add: decimal.simps)
lemma decimal_1: "decimal 1 = [digit_char 1]"
  using decimal.simps [of 1] by simp

lemma decimal_Suc_0: "decimal (Suc 0) = [digit_char 1]"
  using decimal.simps [of 1] by simp

lemma floor_numeral_div: "\<lfloor>(numeral a :: rat) / numeral b\<rfloor> = numeral a div numeral b"
  using floor_divide_of_int_eq [of "numeral a" "numeral b", where ?'a = rat] by simp

lemma replicate_numeral: "replicate (numeral k) x = x # replicate (pred_numeral k) x"
  by (simp add: numeral_eq_Suc)

lemmas fixed_eval = toFixed_def fixed_digits_def js_def decimal_numeral decimal_0 decimal_1 decimal_Suc_0 digit_char_def Let_def
  floor_numeral_div replicate_numeral


lemma pad_0: "pad 0 n = []" by (simp add: pad_def)
lemma pad_Suc: "pad (Suc j) n = digit_char (n div 10 ^ j mod 10) # pad j n"
  by (simp add: pad_def)
lemma length_pad: "length (pad j n) = j" by (simp add: pad_def)

lemma decimal_split: "10 ^ j \<le> n \<Longrightarrow> decimal n = decimal (n div 10 ^ j) @ pad j n"
proof (induction j)
  case 0
  then show ?case by (simp add: pad_0)
next
  case (Suc j)
  from Suc.prems have ten: "10 * 10 ^ j \<le> n" by simp
  from ten have ge: "10 ^ j \<le> n" by linarith
  from ten have big: "\<not> n div 10 ^ j < 10"
    by (simp add: not_less less_eq_div_iff_mult_less_eq)
  have "decimal n = decimal (n div 10 ^ j) @ pad j n" by (rule Suc.IH [OF ge])
  also have "decimal (n div 10 ^ j) =
      decimal (n div 10 ^ j div 10) @ [digit_char (n div 10 ^ j mod 10)]"
    using big by (subst decimal.simps) simp
  also have "n div 10 ^ j div 10 = n div 10 ^ Suc j"
    by (simp add: div_mult2_eq [symmetric] mult.commute)
  finally show ?case by (simp add: pad_Suc)
qed

lemma decimal_nonempty: "decimal n \<noteq> []"
  by (subst decimal.simps) simp

lemma length_decimal_small: "n < 10 ^ j \<Longrightarrow> 0 < j \<Longrightarrow> length (decimal n) \<le> j"
proof (induction j arbitrary: n)
  case 0
  then show ?case by simp
next
  case (Suc j)
  show ?case
  proof (cases "n < 10")
    case True
    then show ?thesis by (subst decimal.simps) simp
  next
    case False
    from Suc.prems(1) have "n div 10 < 10 ^ j"
      by (simp add: div_less_iff_less_mult mult.commute)
    moreover from False Suc.prems(1) have "0 < j"
      by (cases j) simp_all
    ultimately have "length (decimal (n div 10)) \<le> j" by (rule Suc.IH)
    with False show ?thesis by (subst decimal.simps) simp
  qed
qed

lemma length_decimal_big: "10 ^ j \<le> n \<Longrightarrow> j < length (decimal n)"
  using decimal_nonempty [of "n div 10 ^ j"]
  by (simp add: decimal_split length_pad)

lemma pad_small:
  "n < 10 ^ j \<Longrightarrow> 0 < j \<Longrightarrow> replicate (j - length (decimal n)) 0x30 @ decimal n = pad j n"
proof (induction j)
  case 0
  then show ?case by simp
next
  case (Suc j)
  show ?case
  proof (cases "n < 10 ^ j")
    case True
    show ?thesis
    proof (cases "j = 0")
      case j0: True
      with True have "n = 0" by simp
      with j0 show ?thesis
        by (simp add: pad_Suc pad_0 decimal.simps [of 0] digit_char_def)
    next
      case False
      then have pos: "0 < j" by simp
      from Suc.IH [OF True pos]
      have ih: "replicate (j - length (decimal n)) 0x30 @ decimal n = pad j n" .
      from length_decimal_small [OF True pos]
      have "Suc j - length (decimal n) = Suc (j - length (decimal n))" by simp
      moreover from True have "n div 10 ^ j = 0" by simp
      ultimately show ?thesis
        using ih by (simp add: pad_Suc digit_char_def)
    qed
  next
    case False
    then have ge: "10 ^ j \<le> n" by simp
    from Suc.prems(1) have lt: "n div 10 ^ j < 10"
      by (simp add: div_less_iff_less_mult)
    have d: "decimal n = [digit_char (n div 10 ^ j)] @ pad j n"
      using decimal_split [OF ge] lt by (simp add: decimal.simps [of "n div 10 ^ j"])
    then have "length (decimal n) = Suc j" by (simp add: length_pad)
    with d lt show ?thesis by (simp add: pad_Suc)
  qed
qed

lemma digit_char_0: "digit_char 0 = 0x30"
  by (simp add: digit_char_def)

lemma decimal_zero: "decimal 0 = [0x30]"
  by (simp add: decimal.simps [of 0] digit_char_0)

lemma fixed_digits_split:
  assumes "0 < f"
  shows "fixed_digits f n = decimal (n div 10 ^ f) @ js ''.'' @ pad f n"
proof -
  have m0: "(if n = 0 then js ''0'' else decimal n) = decimal n"
    by (simp add: decimal_zero js_def)
  show ?thesis
  proof (cases "length (decimal n) \<le> f")
    case True
    then have small: "n < 10 ^ f"
      using length_decimal_big [of f n] by (cases "n < 10 ^ f") simp_all
    define z where "z = replicate (f - length (decimal n)) (0x30 :: code_unit)"
    have zm: "z @ decimal n = pad f n"
      unfolding z_def by (rule pad_small [OF small assms])
    have rep: "replicate (Suc f - length (decimal n)) (0x30 :: code_unit) = 0x30 # z"
      using True by (simp add: z_def Suc_diff_le)
    from small have hi: "decimal (n div 10 ^ f) = [0x30]"
      by (simp add: decimal_zero)
    show ?thesis
      unfolding fixed_digits_def m0 hi
      using True assms by (simp add: Let_def rep zm)
  next
    case False
    then have ge: "10 ^ f \<le> n"
      using length_decimal_small [of n f] assms by (cases "n < 10 ^ f") simp_all
    have d: "decimal n = decimal (n div 10 ^ f) @ pad f n" by (rule decimal_split [OF ge])
    have len: "length (decimal n) - f = length (decimal (n div 10 ^ f))"
      by (subst d) (simp add: length_pad)
    have t: "take (length (decimal (n div 10 ^ f))) (decimal n) = decimal (n div 10 ^ f)"
      by (subst d) simp
    have dr: "drop (length (decimal (n div 10 ^ f))) (decimal n) = pad f n"
      by (subst d) simp
    show ?thesis
      unfolding fixed_digits_def m0
      using False assms by (simp add: Let_def len t dr)
  qed
qed

lemma toFixed6_spec:
  assumes "\<bar>x\<bar> < 10 ^ 21"
  shows "toFixed nts 6 x = spec_fixed6 x"
proof -
  have abs: "(if x < 0 then - x else x) = \<bar>x\<bar>" by simp
  from assms have small: "\<not> 10 ^ 21 \<le> \<bar>x\<bar>" by simp
  have "toFixed nts 6 x =
      (if x < 0 then js ''-'' else []) @ fixed_digits 6 (nat \<lfloor>\<bar>x\<bar> * 10 ^ 6 + 1 / 2\<rfloor>)"
    unfolding toFixed_def Let_def abs using small by (simp only: if_False)
  also have "fixed_digits 6 (nat \<lfloor>\<bar>x\<bar> * 10 ^ 6 + 1 / 2\<rfloor>) =
      decimal (nat \<lfloor>\<bar>x\<bar> * 10 ^ 6 + 1 / 2\<rfloor> div 10 ^ 6) @ js ''.'' @
      pad 6 (nat \<lfloor>\<bar>x\<bar> * 10 ^ 6 + 1 / 2\<rfloor>)"
    by (rule fixed_digits_split) simp
  finally show ?thesis
    unfolding spec_fixed6_def Let_def .
qed


section \<open>Properties of the MessageComposer and the SosCoordinator\<close>

lemma final_sendSOS_after_await:
  "lastMessage (final (sendSOS_after_await e st time eff settled)) =
     message (userName st) (link_of (numberToString e) settled) time
   \<and> lastLink (final (sendSOS_after_await e st time eff settled)) =
     link_of (numberToString e) settled
   \<and> outcome (sendSOS_after_await e st time eff settled) \<noteq> Suspended"
  by (simp add: sendSOS_after_await_def Let_def split: option.splits prod.splits)

lemma sendSOS_Resolved:
  "contacts st \<noteq> [] \<Longrightarrow> getLocationOnce (geolocation e) = (Resolved pos, eff) \<Longrightarrow>
   sendSOS e st =
     sendSOS_after_await e (st\<lparr>status := js ''Getting location'' @ [0x2026]\<rparr>)
       (toLocaleString e) eff (Some pos)"
  by (simp add: sendSOS_def Let_def)

lemma sendSOS_Rejected:
  "contacts st \<noteq> [] \<Longrightarrow> getLocationOnce (geolocation e) = (Rejected, eff) \<Longrightarrow>
   sendSOS e st =
     sendSOS_after_await e (st\<lparr>status := js ''Getting location'' @ [0x2026]\<rparr>)
       (toLocaleString e) eff None"
  by (simp add: sendSOS_def Let_def)

lemma sendSOS_Pending:
  "contacts st \<noteq> [] \<Longrightarrow> getLocationOnce (geolocation e) = (Pending, eff) \<Longrightarrow>
   sendSOS e st =
     \<lparr> final = st\<lparr>status := js ''Getting location'' @ [0x2026]\<rparr>, effects = eff,
       outcome = Suspended \<rparr>"
  by (simp add: sendSOS_def Let_def)

lemma message_lines:
  "message user link time =
     join [0x0A]
       ([if user \<noteq> [] then js ''My name is '' @ user @ js ''.''
         else js ''This is an SOS message.'',
         detained_line,
         check_line] @
        (if link \<noteq> [] then [js ''My last known location is below:'', link]
         else [js ''My location is unavailable right now.'']) @
        [js ''Time: '' @ time])"
  by (simp add: message_def nameLine_def)

lemma getLocationOnce_silent:
  "getLocationOnce (Some silent) =
     (Pending, [GetCurrentPosition \<lparr> enableHighAccuracy = True, timeout = 10000, maximumAge = 0 \<rparr>])"
  by (simp add: getLocationOnce_def silent_def Let_def)

lemma getLocationOnce_fix:
  "getLocationOnce (Some (fix_at lat lon)) =
     (Resolved \<lparr> coords = \<lparr> latitude = lat, longitude = lon \<rparr> \<rparr>,
      [GetCurrentPosition \<lparr> enableHighAccuracy = True, timeout = 10000, maximumAge = 0 \<rparr>])"
  by (simp add: getLocationOnce_def fix_at_def Let_def)

lemma getLocationOnce_None: "getLocationOnce None = (Rejected, [])"
  by (simp add: getLocationOnce_def)

lemma one_contact_nonempty: "contacts one_contact \<noteq> []"
  by (simp add: one_contact_def initial_def)

lemma pad_6:
  "pad 6 n =
     [digit_char (n div 100000 mod 10), digit_char (n div 10000 mod 10),
      digit_char (n div 1000 mod 10), digit_char (n div 100 mod 10),
      digit_char (n div 10 mod 10), digit_char (n mod 10)]"
proof -
  have six: "(6::nat) = Suc (Suc (Suc (Suc (Suc (Suc 0)))))" by simp
  have "pad (Suc (Suc (Suc (Suc (Suc (Suc 0)))))) n =
     [digit_char (n div 100000 mod 10), digit_char (n div 10000 mod 10),
      digit_char (n div 1000 mod 10), digit_char (n div 100 mod 10),
      digit_char (n div 10 mod 10), digit_char (n mod 10)]"
    by (simp add: pad_Suc pad_0)
  then show ?thesis by (simp only: six)
qed

lemma spec_fixed6_37: "spec_fixed6 37 = js ''37.000000''"
  by (simp add: spec_fixed6_def pad_6 js_def decimal_numeral decimal_0 digit_char_def Let_def
      floor_numeral_div)

lemma spec_fixed6_m122: "spec_fixed6 (- 122) = js ''-122.000000''"
  by (simp add: spec_fixed6_def pad_6 js_def decimal_numeral decimal_0 decimal_1 decimal_Suc_0
      digit_char_def Let_def floor_numeral_div)



lemma spec_text_message: "spec_text user link time = message user link time @ js ''.''"
  by (simp add: spec_text_def message_def nameLine_def)

lemma sendSOS_settled:
  assumes "contacts st \<noteq> []" and "outcome (sendSOS e st) \<noteq> Suspended"
  shows "lastMessage (final (sendSOS e st)) =
           message (userName st) (lastLink (final (sendSOS e st))) (toLocaleString e)"
proof (cases "getLocationOnce (geolocation e)")
  case (Pair promise eff)
  show ?thesis
  proof (cases promise)
    case (Resolved pos)
    with Pair assms(1) show ?thesis
      by (simp add: sendSOS_Resolved final_sendSOS_after_await)
  next
    case Rejected
    with Pair assms(1) show ?thesis
      by (simp add: sendSOS_Rejected final_sendSOS_after_await)
  next
    case Pending
    with Pair assms show ?thesis
      by (simp add: sendSOS_Pending)
  qed
qed

lemma sendSOS_link:
  assumes "contacts st \<noteq> []"
  shows "fst (getLocationOnce (geolocation e)) = Rejected \<Longrightarrow>
           lastLink (final (sendSOS e st)) = link_of (numberToString e) None"
    and "fst (getLocationOnce (geolocation e)) = Resolved pos \<Longrightarrow>
           lastLink (final (sendSOS e st)) = link_of (numberToString e) (Some pos)"
    and "outcome (sendSOS e st) = Suspended \<longleftrightarrow>
           fst (getLocationOnce (geolocation e)) = Pending"
proof -
  obtain promise eff where p: "getLocationOnce (geolocation e) = (promise, eff)"
    by (cases "getLocationOnce (geolocation e)")
  show "fst (getLocationOnce (geolocation e)) = Rejected \<Longrightarrow>
           lastLink (final (sendSOS e st)) = link_of (numberToString e) None"
    using assms p by (simp add: sendSOS_Rejected final_sendSOS_after_await)
  show "fst (getLocationOnce (geolocation e)) = Resolved pos \<Longrightarrow>
           lastLink (final (sendSOS e st)) = link_of (numberToString e) (Some pos)"
    using assms p by (simp add: sendSOS_Resolved final_sendSOS_after_await)
  show "outcome (sendSOS e st) = Suspended \<longleftrightarrow>
           fst (getLocationOnce (geolocation e)) = Pending"
    using assms p
    by (cases promise)
      (simp_all add: sendSOS_Resolved sendSOS_Rejected sendSOS_Pending final_sendSOS_after_await)
qed

lemma sendSOS_unsupported:
  "lastLink (final (sendSOS (env_of None) one_contact)) = []
   \<and> lastMessage (final (sendSOS (env_of None) one_contact)) =
       message (js ''Alex'') [] (js ''11/2/2026, 4:10:00 AM'')
   \<and> outcome (sendSOS (env_of None) one_contact) \<noteq> Suspended"
  using sendSOS_Rejected [OF one_contact_nonempty, of "env_of None" "[]"]
  by (simp add: final_sendSOS_after_await getLocationOnce_None env_of_def link_of_def
      one_contact_def initial_def)

text \<open>
  C4, as stated, fails: the last line the code writes is "Time: " followed by the
  formatted time, with no full stop after it.
\<close>
theorem C4_time_line_counterexample:
  "lastMessage (final (sendSOS (env_of None) one_contact)) \<noteq>
     spec_text (userName one_contact) (lastLink (final (sendSOS (env_of None) one_contact)))
       (toLocaleString (env_of None))"
proof -
  have "userName one_contact = js ''Alex''"
    by (simp add: one_contact_def initial_def)
  moreover have "toLocaleString (env_of None) = js ''11/2/2026, 4:10:00 AM''"
    by (simp add: env_of_def)
  ultimately show ?thesis
    using sendSOS_unsupported by (simp add: spec_text_message js_def)
qed

text \<open>
  C4, as amended. For every user name, link and time the message is these lines, joined
  by newlines, in this order: "My name is {userName}." when the name is not empty, else
  "This is an SOS message."; the detained line; the check-on-me line; when the link is
  not empty "My last known location is below:" and the link on a line of its own, else
  "My location is unavailable right now."; and last "Time: {formatted time}", with
  nothing after the time. A send that gets past its wait for the location stores this
  message, built from the user name, the stored link and the time.
\<close>
theorem C4_message_lines_in_order:
  "message user link time =
     join [0x0A]
       ([if user \<noteq> [] then js ''My name is '' @ user @ js ''.''
         else js ''This is an SOS message.'',
         detained_line,
         check_line] @
        (if link \<noteq> [] then [js ''My last known location is below:'', link]
         else [js ''My location is unavailable right now.'']) @
        [js ''Time: '' @ time])
   \<and> (contacts st \<noteq> [] \<and> outcome (sendSOS e st) \<noteq> Suspended \<longrightarrow>
        lastMessage (final (sendSOS e st)) =
          message (userName st) (lastLink (final (sendSOS e st))) (toLocaleString e))"
  using message_lines [of user link time] sendSOS_settled [of st e] by blast

text \<open>C4 for the user "Alex" where the browser has no geolocation.\<close>
theorem C4_message_lines_witness:
  "contacts one_contact \<noteq> [] \<and> outcome (sendSOS (env_of None) one_contact) \<noteq> Suspended
   \<and> lastMessage (final (sendSOS (env_of None) one_contact)) =
      join [0x0A]
        [js ''My name is Alex.'', detained_line, check_line,
         js ''My location is unavailable right now.'', js ''Time: 11/2/2026, 4:10:00 AM'']"
proof -
  have h: "contacts one_contact \<noteq> [] \<and> outcome (sendSOS (env_of None) one_contact) \<noteq> Suspended"
    using one_contact_nonempty sendSOS_unsupported by simp
  have l: "lastLink (final (sendSOS (env_of None) one_contact)) = []"
    using sendSOS_unsupported by simp
  have u: "userName one_contact = js ''Alex''"
    by (simp add: one_contact_def initial_def)
  have t: "toLocaleString (env_of None) = js ''11/2/2026, 4:10:00 AM''"
    by (simp add: env_of_def)
  from C4_message_lines_in_order [of "js ''Alex''" "[]" "js ''11/2/2026, 4:10:00 AM''"
      one_contact "env_of None"] h
  have "lastMessage (final (sendSOS (env_of None) one_contact)) =
     join [0x0A]
       ([if js ''Alex'' \<noteq> [] then js ''My name is '' @ js ''Alex'' @ js ''.''
         else js ''This is an SOS message.'',
         detained_line,
         check_line] @
        (if ([]::jsstring) \<noteq> [] then [js ''My last known location is below:'', []]
         else [js ''My location is unavailable right now.'']) @
        [js ''Time: '' @ js ''11/2/2026, 4:10:00 AM''])"
    by (simp add: l u t)
  also have "\<dots> = join [0x0A]
        [js ''My name is Alex.'', detained_line, check_line,
         js ''My location is unavailable right now.'', js ''Time: 11/2/2026, 4:10:00 AM'']"
    by (simp add: js_def)
  finally show ?thesis using h by simp
qed


lemma link_of_Known:
  assumes "\<bar>lat\<bar> < 10 ^ 21" and "\<bar>lon\<bar> < 10 ^ 21"
  shows "link_of nts (Some \<lparr> coords = \<lparr> latitude = lat, longitude = lon \<rparr> \<rparr>) =
           js ''https://maps.google.com/?q='' @ spec_fixed6 lat @ js '','' @ spec_fixed6 lon"
  by (simp add: link_of_def mapsLink_def Let_def toFixed6_spec [OF assms(1)]
      toFixed6_spec [OF assms(2)])

text \<open>
  C5. The composed link is the empty string when the location is unknown, and
  otherwise "https://maps.google.com/?q=<lat>,<lon>" with both coordinates formatted to
  6 fractional digits, for coordinates below \<open>10\<^sup>2\<^sup>1\<close> in absolute value (degrees
  are). \<open>sendSOS\<close> stores that link: the empty string when the probe rejects, the URL
  of the position when it resolves.
\<close>
theorem C5_mapLink_shape:
  "link_of nts None = []
   \<and> (\<bar>lat\<bar> < 10 ^ 21 \<and> \<bar>lon\<bar> < 10 ^ 21 \<longrightarrow>
        link_of nts (Some \<lparr> coords = \<lparr> latitude = lat, longitude = lon \<rparr> \<rparr>) =
          js ''https://maps.google.com/?q='' @ spec_fixed6 lat @ js '','' @ spec_fixed6 lon)
   \<and> (contacts st \<noteq> [] \<and> fst (getLocationOnce (geolocation e)) = Rejected \<longrightarrow>
        lastLink (final (sendSOS e st)) = link_of (numberToString e) None)
   \<and> (contacts st \<noteq> [] \<and> fst (getLocationOnce (geolocation e)) = Resolved pos \<longrightarrow>
        lastLink (final (sendSOS e st)) = link_of (numberToString e) (Some pos))"
proof (intro conjI impI)
  show "link_of nts None = []" by (simp add: link_of_def)
next
  assume "\<bar>lat\<bar> < 10 ^ 21 \<and> \<bar>lon\<bar> < 10 ^ 21"
  then show "link_of nts (Some \<lparr> coords = \<lparr> latitude = lat, longitude = lon \<rparr> \<rparr>) =
          js ''https://maps.google.com/?q='' @ spec_fixed6 lat @ js '','' @ spec_fixed6 lon"
    by (simp add: link_of_Known)
next
  assume "contacts st \<noteq> [] \<and> fst (getLocationOnce (geolocation e)) = Rejected"
  then show "lastLink (final (sendSOS e st)) = link_of (numberToString e) None"
    by (simp add: sendSOS_link(1))
next
  assume "contacts st \<noteq> [] \<and> fst (getLocationOnce (geolocation e)) = Resolved pos"
  then show "lastLink (final (sendSOS e st)) = link_of (numberToString e) (Some pos)"
    by (simp add: sendSOS_link(2))
qed

text \<open>C5 at latitude 37 and longitude -122, and where the browser has no geolocation.\<close>
theorem C5_mapLink_witness:
  "\<bar>37 :: rat\<bar> < 10 ^ 21 \<and> \<bar>- 122 :: rat\<bar> < 10 ^ 21
   \<and> contacts one_contact \<noteq> []
   \<and> fst (getLocationOnce (geolocation (env_of (Some (fix_at 37 (- 122)))))) =
        Resolved \<lparr> coords = \<lparr> latitude = 37, longitude = - 122 \<rparr> \<rparr>
   \<and> lastLink (final (sendSOS (env_of (Some (fix_at 37 (- 122)))) one_contact)) =
        js ''https://maps.google.com/?q=37.000000,-122.000000''
   \<and> fst (getLocationOnce (geolocation (env_of None))) = Rejected
   \<and> lastLink (final (sendSOS (env_of None) one_contact)) = []"
proof -
  have b: "\<bar>37 :: rat\<bar> < 10 ^ 21 \<and> \<bar>- 122 :: rat\<bar> < 10 ^ 21" by simp
  have c: "contacts one_contact \<noteq> []" by (rule one_contact_nonempty)
  have g: "fst (getLocationOnce (geolocation (env_of (Some (fix_at 37 (- 122)))))) =
        Resolved \<lparr> coords = \<lparr> latitude = 37, longitude = - 122 \<rparr> \<rparr>"
    by (simp add: env_of_def getLocationOnce_fix)
  have r: "fst (getLocationOnce (geolocation (env_of None))) = Rejected"
    by (simp add: env_of_def getLocationOnce_None)
  have url: "js ''https://maps.google.com/?q='' @ spec_fixed6 37 @ js '','' @ spec_fixed6 (- 122) =
        js ''https://maps.google.com/?q=37.000000,-122.000000''"
    unfolding spec_fixed6_37 spec_fixed6_m122 by (simp add: js_def)
  note known = C5_mapLink_shape [of "numberToString (env_of (Some (fix_at 37 (- 122))))" 37 "- 122"
      one_contact "env_of (Some (fix_at 37 (- 122)))"
      "\<lparr> coords = \<lparr> latitude = 37, longitude = - 122 \<rparr> \<rparr>"]
  note unknown = C5_mapLink_shape [of "numberToString (env_of None)" 37 "- 122"
      one_contact "env_of None" "\<lparr> coords = \<lparr> latitude = 37, longitude = - 122 \<rparr> \<rparr>"]
  from known b c g have "lastLink (final (sendSOS (env_of (Some (fix_at 37 (- 122)))) one_contact)) =
        js ''https://maps.google.com/?q='' @ spec_fixed6 37 @ js '','' @ spec_fixed6 (- 122)"
    by metis
  moreover from unknown c r have "lastLink (final (sendSOS (env_of None) one_contact)) = []"
    by metis
  ultimately show ?thesis using b c g r url by simp
qed

text \<open>
  C6. A send with no contacts returns at once with the status "Add at least one contact
  first.": no effect happens (the sensor is not asked, nothing is dispatched) and the
  last message and link are unchanged.
\<close>
theorem C6_send_without_contacts:
  "contacts st = [] \<Longrightarrow>
   sendSOS e st =
     \<lparr> final = st\<lparr>status := js ''Add at least one contact first.''\<rparr>,
       effects = [], outcome = Returned \<rparr>
   \<and> effects (sendSOS e st) = []
   \<and> lastMessage (final (sendSOS e st)) = lastMessage st
   \<and> lastLink (final (sendSOS e st)) = lastLink st"
  by (simp add: sendSOS_def)

text \<open>C6 on the empty store, with a sensor that would have answered.\<close>
theorem C6_send_without_contacts_witness:
  "contacts initial = []
   \<and> sendSOS (env_of (Some (fix_at 37 (- 122)))) initial =
     \<lparr> final = initial\<lparr>status := js ''Add at least one contact first.''\<rparr>,
       effects = [], outcome = Returned \<rparr>
   \<and> effects (sendSOS (env_of (Some (fix_at 37 (- 122)))) initial) = []"
proof -
  have h: "contacts initial = []" by (simp add: initial_def)
  from C6_send_without_contacts [OF h, of "env_of (Some (fix_at 37 (- 122)))"] h
  show ?thesis by simp
qed

text \<open>
  C8, as stated, fails: with a sensor that never invokes a callback the probe stays
  pending, and the send stays suspended after its one request to the sensor.
\<close>
theorem C8_silent_sensor_counterexample:
  "fst (getLocationOnce (Some silent)) = Pending
   \<and> outcome (sendSOS (env_of (Some silent)) one_contact) = Suspended
   \<and> effects (sendSOS (env_of (Some silent)) one_contact) =
       [GetCurrentPosition \<lparr> enableHighAccuracy = True, timeout = 10000, maximumAge = 0 \<rparr>]"
  using sendSOS_Pending [OF one_contact_nonempty, of "env_of (Some silent)"]
  by (simp add: getLocationOnce_silent env_of_def)

text \<open>
  C8, as amended. The probe has no timer of its own. When the capability is absent it
  rejects at once and asks nothing. Otherwise it asks the sensor once, with high
  accuracy, a timeout of 10000 ms and no cached value, and settles as the sensor
  answers: it resolves with the sensor's position on the success callback, rejects on
  the error callback, and stays pending when the sensor never invokes a callback, and
  only then. A send with contacts is suspended for ever exactly when the probe stays
  pending.
\<close>
theorem C8_probe_settles_with_sensor:
  "getLocationOnce None = (Rejected, [])
   \<and> getLocationOnce (Some g) =
       (case g \<lparr> enableHighAccuracy = True, timeout = 10000, maximumAge = 0 \<rparr> of
          Some (Success pos) \<Rightarrow> Resolved pos
        | Some Failure \<Rightarrow> Rejected
        | None \<Rightarrow> Pending,
        [GetCurrentPosition \<lparr> enableHighAccuracy = True, timeout = 10000, maximumAge = 0 \<rparr>])
   \<and> (fst (getLocationOnce nav) = Pending \<longleftrightarrow>
      (\<exists>g. nav = Some g \<and>
           g \<lparr> enableHighAccuracy = True, timeout = 10000, maximumAge = 0 \<rparr> = None))
   \<and> (nav = None \<or>
       snd (getLocationOnce nav) =
         [GetCurrentPosition \<lparr> enableHighAccuracy = True, timeout = 10000, maximumAge = 0 \<rparr>])
   \<and> (contacts st \<noteq> [] \<longrightarrow>
        (outcome (sendSOS e st) = Suspended \<longleftrightarrow>
           fst (getLocationOnce (geolocation e)) = Pending))"
proof (intro conjI impI)
  show "getLocationOnce None = (Rejected, [])"
    by (rule getLocationOnce_None)
next
  show "getLocationOnce (Some g) =
       (case g \<lparr> enableHighAccuracy = True, timeout = 10000, maximumAge = 0 \<rparr> of
          Some (Success pos) \<Rightarrow> Resolved pos
        | Some Failure \<Rightarrow> Rejected
        | None \<Rightarrow> Pending,
        [GetCurrentPosition \<lparr> enableHighAccuracy = True, timeout = 10000, maximumAge = 0 \<rparr>])"
    by (simp add: getLocationOnce_def Let_def)
next
  show "fst (getLocationOnce nav) = Pending \<longleftrightarrow>
      (\<exists>g. nav = Some g \<and>
           g \<lparr> enableHighAccuracy = True, timeout = 10000, maximumAge = 0 \<rparr> = None)"
    by (cases nav) (auto simp: getLocationOnce_def Let_def split: option.splits callback.splits)
next
  show "nav = None \<or>
       snd (getLocationOnce nav) =
         [GetCurrentPosition \<lparr> enableHighAccuracy = True, timeout = 10000, maximumAge = 0 \<rparr>]"
    by (cases nav) (simp_all add: getLocationOnce_def Let_def)
next
  assume "contacts st \<noteq> []"
  then show "outcome (sendSOS e st) = Suspended \<longleftrightarrow>
           fst (getLocationOnce (geolocation e)) = Pending"
    by (rule sendSOS_link(3))
qed

text \<open>
  C8 with a sensor that answers: the probe resolves with its position and the send is
  not suspended.
\<close>
theorem C8_probe_settles_witness:
  "contacts one_contact \<noteq> []
   \<and> fst (getLocationOnce (geolocation (env_of (Some (fix_at 37 (- 122)))))) \<noteq> Pending
   \<and> outcome (sendSOS (env_of (Some (fix_at 37 (- 122)))) one_contact) \<noteq> Suspended
   \<and> getLocationOnce (Some (fix_at 37 (- 122))) =
       (Resolved \<lparr> coords = \<lparr> latitude = 37, longitude = - 122 \<rparr> \<rparr>,
        [GetCurrentPosition \<lparr> enableHighAccuracy = True, timeout = 10000, maximumAge = 0 \<rparr>])"
proof -
  have c: "contacts one_contact \<noteq> []" by (rule one_contact_nonempty)
  have g: "fst (getLocationOnce (geolocation (env_of (Some (fix_at 37 (- 122)))))) \<noteq> Pending"
    by (simp add: env_of_def getLocationOnce_fix)
  note inst = C8_probe_settles_with_sensor [where g = "fix_at 37 (- 122)"
      and nav = "Some (fix_at 37 (- 122))" and st = one_contact
      and e = "env_of (Some (fix_at 37 (- 122)))"]
  from inst c g
  have s: "outcome (sendSOS (env_of (Some (fix_at 37 (- 122)))) one_contact) \<noteq> Suspended"
    by blast
  from inst
  have r: "getLocationOnce (Some (fix_at 37 (- 122))) =
       (Resolved \<lparr> coords = \<lparr> latitude = 37, longitude = - 122 \<rparr> \<rparr>,
        [GetCurrentPosition \<lparr> enableHighAccuracy = True, timeout = 10000, maximumAge = 0 \<rparr>])"
    by (simp add: fix_at_def)
  from c g s r show ?thesis by simp
qed

end
